theory Spec2Isabelle
  imports Main "HOL-Library.Word" "HOL-Library.AList"
begin

unbundle bit_operations_syntax

section \<open>Values, errors and field codecs of pygpt.py\<close>

text \<open>
  Bytes are 8-bit words, a Python \<open>bytes\<close> value is a list of them. Python integers
  are unbounded, so every integer field is an \<open>int\<close>; the range check happens where
  the source does it, in \<open>struct.pack\<close>. A GUID is the 128-bit integer that
  \<open>uuid.UUID\<close> compares by. A Python \<open>str\<close> that may hold any text (a partition
  label) is its list of Unicode code points.
\<close>

type_synonym byte = "8 word"
type_synonym guid = "128 word"
type_synonym pystr = "nat list"

text \<open>
  Every exception the modelled code can raise. \<open>GPTError\<close> carries the static part of
  the message of the source; \<open>struct_error\<close> is the library's \<open>struct.error\<close>,
  \<open>StructError\<close> the class of that name in pygpt.py.
\<close>

datatype error =
    GPTError string
  | StructError
  | struct_error
  | AssertionError
  | UnicodeError
  | OSError
  | ValueError
  | UnboundLocalError
  | ZeroDivisionError
  | AttributeError
  | KeyError

subsection \<open>BitProperty and PartitionAttributes\<close>

text \<open>
  \<open>_getter\<close>: \<open>(getter(self) >> shift) & mask\<close>.
  \<open>_setter\<close>: \<open>assert value & mask == value\<close>, then
  \<open>getter(self) & ~(mask << shift) | value << shift\<close>.
\<close>

definition BitProperty_getter :: "nat \<Rightarrow> int \<Rightarrow> int \<Rightarrow> int" where
  "BitProperty_getter shift msk raw = (drop_bit shift raw) AND msk"

definition BitProperty_setter :: "nat \<Rightarrow> int \<Rightarrow> int \<Rightarrow> int \<Rightarrow> error + int" where
  "BitProperty_setter shift msk raw v =
     (if v AND msk = v
      then Inr ((raw AND NOT (push_bit shift msk)) OR push_bit shift v)
      else Inl AssertionError)"

datatype attr_field = successful | tries | priority | legacy_boot | required | raw_16

fun attr_shift :: "attr_field \<Rightarrow> nat" where
  "attr_shift successful = 56"
| "attr_shift tries = 52"
| "attr_shift priority = 48"
| "attr_shift legacy_boot = 2"
| "attr_shift required = 0"
| "attr_shift raw_16 = 48"

fun attr_mask :: "attr_field \<Rightarrow> int" where
  "attr_mask successful = 1"
| "attr_mask tries = 0xf"
| "attr_mask priority = 0xf"
| "attr_mask legacy_boot = 1"
| "attr_mask required = 1"
| "attr_mask raw_16 = 0xffff"

definition attr_get :: "attr_field \<Rightarrow> int \<Rightarrow> int" where
  "attr_get f raw = BitProperty_getter (attr_shift f) (attr_mask f) raw"

definition attr_set :: "attr_field \<Rightarrow> int \<Rightarrow> int \<Rightarrow> error + int" where
  "attr_set f raw v = BitProperty_setter (attr_shift f) (attr_mask f) raw v"

subsection \<open>struct.pack and struct.unpack of the formats the records use\<close>

text \<open>
  Format \<open>L\<close> and \<open>Q\<close> under \<open><\<close>: little-endian unsigned integers of 4 and 8
  bytes; \<open>struct.pack\<close> raises \<open>struct.error\<close> when the value is out of range.
\<close>

fun le_bytes :: "nat \<Rightarrow> int \<Rightarrow> byte list" where
  "le_bytes 0 x = []"
| "le_bytes (Suc n) x = word_of_int x # le_bytes n (x div 256)"

fun le_int :: "byte list \<Rightarrow> int" where
  "le_int [] = 0"
| "le_int (b # bs) = uint b + 256 * le_int bs"

definition pack_uint :: "nat \<Rightarrow> int \<Rightarrow> error + byte list" where
  "pack_uint n x = (if 0 \<le> x \<and> x < 256 ^ n then Inr (le_bytes n x) else Inl struct_error)"

text \<open>Format \<open>Ns\<close>: the value is cut to \<open>N\<close> bytes or padded with zero bytes.\<close>

definition pack_bytes :: "nat \<Rightarrow> byte list \<Rightarrow> byte list" where
  "pack_bytes n v = take n v @ replicate (n - length v) 0"

definition slice :: "nat \<Rightarrow> nat \<Rightarrow> 'a list \<Rightarrow> 'a list" where
  "slice off n xs = take n (drop off xs)"

text \<open>The packed fields of a record in order; the first failure is the result.\<close>

fun concat_results :: "(error + byte list) list \<Rightarrow> error + byte list" where
  "concat_results [] = Inr []"
| "concat_results (r # rs) =
     (case r of Inl e \<Rightarrow> Inl e
      | Inr b \<Rightarrow> (case concat_results rs of Inl e \<Rightarrow> Inl e | Inr bs \<Rightarrow> Inr (b @ bs)))"

subsection \<open>GUIDStructField\<close>

text \<open>
  \<open>uuid.UUID.bytes_le\<close>: the 16 big-endian bytes of the integer with the first three
  fields (4, 2 and 2 bytes) byte-swapped; \<open>GUID(bytes_le=...)\<close> applies the same swap.
\<close>

definition be_bytes :: "nat \<Rightarrow> int \<Rightarrow> byte list" where
  "be_bytes n x = rev (le_bytes n x)"

definition be_int :: "byte list \<Rightarrow> int" where
  "be_int bs = le_int (rev bs)"

definition swap_le :: "byte list \<Rightarrow> byte list" where
  "swap_le b = rev (take 4 b) @ rev (slice 4 2 b) @ rev (slice 6 2 b) @ drop 8 b"

definition GUID_Pack :: "guid \<Rightarrow> byte list" where
  "GUID_Pack g = swap_le (be_bytes 16 (uint g))"

definition GUID_Unpack :: "byte list \<Rightarrow> guid" where
  "GUID_Unpack b = word_of_int (be_int (swap_le b))"

subsection \<open>UTF16StructField\<close>

text \<open>
  \<open>str.encode('utf-16-le')\<close>: a code point below 0x10000 is one 16-bit unit, unless it
  is a surrogate (0xD800 to 0xDFFF), which cannot be encoded; a code point from 0x10000 is
  a surrogate pair. \<open>bytes.decode('utf-16-le')\<close> is the strict inverse and fails on an
  odd number of bytes and on an unpaired surrogate.
\<close>

fun utf16_units :: "pystr \<Rightarrow> error + nat list" where
  "utf16_units [] = Inr []"
| "utf16_units (c # cs) =
     (if 0xD800 \<le> c \<and> c < 0xE000 then Inl UnicodeError
      else if 0x110000 \<le> c then Inl UnicodeError
      else (case utf16_units cs of Inl e \<Rightarrow> Inl e
            | Inr us \<Rightarrow>
                if c < 0x10000 then Inr (c # us)
                else Inr ((0xD800 + (c - 0x10000) div 0x400)
                          # (0xDC00 + (c - 0x10000) mod 0x400) # us)))"

fun units_bytes :: "nat list \<Rightarrow> byte list" where
  "units_bytes [] = []"
| "units_bytes (u # us) = of_nat (u mod 256) # of_nat (u div 256) # units_bytes us"

definition utf16_le_encode :: "pystr \<Rightarrow> error + byte list" where
  "utf16_le_encode s = (case utf16_units s of Inl e \<Rightarrow> Inl e | Inr us \<Rightarrow> Inr (units_bytes us))"

fun bytes_units :: "byte list \<Rightarrow> error + nat list" where
  "bytes_units [] = Inr []"
| "bytes_units [b] = Inl UnicodeError"
| "bytes_units (lo # hi # bs) =
     (case bytes_units bs of Inl e \<Rightarrow> Inl e | Inr us \<Rightarrow> Inr ((unat lo + 256 * unat hi) # us))"

fun units_decode :: "nat list \<Rightarrow> error + pystr" where
  "units_decode [] = Inr []"
| "units_decode [u] = (if 0xD800 \<le> u \<and> u < 0xE000 then Inl UnicodeError else Inr [u])"
| "units_decode (u # l # us) =
     (if u < 0xD800 \<or> 0xE000 \<le> u
      then (case units_decode (l # us) of Inl e \<Rightarrow> Inl e | Inr s \<Rightarrow> Inr (u # s))
      else if u < 0xDC00 \<and> 0xDC00 \<le> l \<and> l < 0xE000
      then (case units_decode us of Inl e \<Rightarrow> Inl e
            | Inr s \<Rightarrow> Inr ((0x10000 + (u - 0xD800) * 0x400 + (l - 0xDC00)) # s))
      else Inl UnicodeError)"

definition utf16_le_decode :: "byte list \<Rightarrow> error + pystr" where
  "utf16_le_decode b = (case bytes_units b of Inl e \<Rightarrow> Inl e | Inr us \<Rightarrow> units_decode us)"

text \<open>\<open>str.strip('\x00')\<close> removes the NUL characters at both ends.\<close>

definition strip_nul :: "pystr \<Rightarrow> pystr" where
  "strip_nul s = rev (dropWhile (\<lambda>c. c = 0) (rev (dropWhile (\<lambda>c. c = 0) s)))"

text \<open>
  \<open>UTF16StructField.Pack\<close> raises \<open>StructError\<close> when the encoded value has
  \<open>max_length\<close> bytes or more; \<open>Unpack\<close> decodes and strips.
\<close>

definition UTF16_Pack :: "nat \<Rightarrow> pystr \<Rightarrow> error + byte list" where
  "UTF16_Pack max_length v =
     (case utf16_le_encode v of Inl e \<Rightarrow> Inl e
      | Inr new_value \<Rightarrow> if length new_value \<ge> max_length then Inl StructError else Inr new_value)"

definition UTF16_Unpack :: "byte list \<Rightarrow> error + pystr" where
  "UTF16_Unpack v = (case utf16_le_decode v of Inl e \<Rightarrow> Inl e | Inr s \<Rightarrow> Inr (strip_nul s))"

text \<open>
  \<open>struct.unpack(fmt, source)\<close> needs exactly \<open>calcsize(fmt)\<close> bytes and cuts them
  into the fields' widths.
\<close>

fun split_fields :: "nat list \<Rightarrow> 'a list \<Rightarrow> 'a list list" where
  "split_fields [] xs = []"
| "split_fields (n # ns) xs = take n xs # split_fields ns (drop n xs)"

definition struct_unpack :: "nat list \<Rightarrow> byte list \<Rightarrow> error + byte list list" where
  "struct_unpack widths src =
     (if length src \<noteq> sum_list widths then Inl struct_error else Inr (split_fields widths src))"

section \<open>The record types\<close>

subsection \<open>Files\<close>

text \<open>
  A disk image or block device: its path, the logical block size that \<open>lsblk\<close> reports
  when it is a block device (\<open>None\<close> for a plain file), and its bytes. \<open>seek\<close> to a
  negative position raises \<open>OSError\<close>; \<open>read\<close> returns the bytes there are; a write
  past the end extends a plain file with zero bytes and fails on a block device.
\<close>

record imgfile =
  file_name :: string
  logical_block_size :: "int option"
  content :: "byte list"

definition IsBlockDevice :: "imgfile \<Rightarrow> bool" where
  "IsBlockDevice f = (logical_block_size f \<noteq> None)"

definition GetImageSize :: "imgfile \<Rightarrow> int" where
  "GetImageSize f = int (length (content f))"

definition file_read :: "imgfile \<Rightarrow> int \<Rightarrow> nat \<Rightarrow> error + byte list" where
  "file_read f pos n = (if pos < 0 then Inl OSError else Inr (slice (nat pos) n (content f)))"

definition file_write :: "imgfile \<Rightarrow> int \<Rightarrow> byte list \<Rightarrow> error + imgfile" where
  "file_write f pos blob =
     (if pos < 0 then Inl OSError
      else if IsBlockDevice f \<and> nat pos + length blob > length (content f) then Inl OSError
      else let c = content f; c' = c @ replicate (nat pos - length c) 0
           in Inr (f\<lparr>content := take (nat pos) c' @ blob @ drop (nat pos + length blob) c'\<rparr>))"

subsection \<open>ProtectiveMBR\<close>

record ProtectiveMBR =
  BootCode :: "byte list"
  BootGUID :: guid
  DiskID :: int
  Magic :: "byte list"
  LegacyPart0 :: "byte list"
  LegacyPart1 :: "byte list"
  LegacyPart2 :: "byte list"
  LegacyPart3 :: "byte list"
  Signature :: "byte list"

definition PMBR_WIDTHS :: "nat list" where
  "PMBR_WIDTHS = [424, 16, 4, 2, 16, 16, 16, 16, 2]"

definition PMBR_SIGNATURE :: "byte list" where
  "PMBR_SIGNATURE = [0x55, 0xAA]"

definition PMBR_MAGIC :: "byte list" where
  "PMBR_MAGIC = [0x1d, 0x9a]"

definition ProtectiveMBR_Pack :: "ProtectiveMBR \<Rightarrow> error + byte list" where
  "ProtectiveMBR_Pack m = concat_results
     [Inr (pack_bytes 424 (BootCode m)),
      Inr (pack_bytes 16 (GUID_Pack (BootGUID m))),
      pack_uint 4 (DiskID m),
      Inr (pack_bytes 2 (Magic m)),
      Inr (pack_bytes 16 (LegacyPart0 m)),
      Inr (pack_bytes 16 (LegacyPart1 m)),
      Inr (pack_bytes 16 (LegacyPart2 m)),
      Inr (pack_bytes 16 (LegacyPart3 m)),
      Inr (pack_bytes 2 (ProtectiveMBR.Signature m))]"

definition ProtectiveMBR_Unpack :: "byte list \<Rightarrow> error + ProtectiveMBR" where
  "ProtectiveMBR_Unpack src =
     (case struct_unpack PMBR_WIDTHS src of Inl e \<Rightarrow> Inl e
      | Inr vs \<Rightarrow> Inr \<lparr>BootCode = vs ! 0, BootGUID = GUID_Unpack (vs ! 1),
                       DiskID = le_int (vs ! 2), Magic = vs ! 3,
                       LegacyPart0 = vs ! 4, LegacyPart1 = vs ! 5,
                       LegacyPart2 = vs ! 6, LegacyPart3 = vs ! 7,
                       ProtectiveMBR.Signature = vs ! 8\<rparr>)"

definition ProtectiveMBR_ReadFrom :: "imgfile \<Rightarrow> int \<Rightarrow> error + ProtectiveMBR" where
  "ProtectiveMBR_ReadFrom f pos =
     (case file_read f pos (sum_list PMBR_WIDTHS) of Inl e \<Rightarrow> Inl e
      | Inr b \<Rightarrow> ProtectiveMBR_Unpack b)"

subsection \<open>Header\<close>

record Header =
  Signature :: "byte list"
  Revision :: "byte list"
  HeaderSize :: int
  CRC32 :: int
  Reserved :: "byte list"
  CurrentLBA :: int
  BackupLBA :: int
  FirstUsableLBA :: int
  LastUsableLBA :: int
  DiskGUID :: guid
  PartitionEntriesStartingLBA :: int
  PartitionEntriesNumber :: int
  PartitionEntrySize :: int
  PartitionArrayCRC32 :: int

definition HEADER_WIDTHS :: "nat list" where
  "HEADER_WIDTHS = [8, 4, 4, 4, 4, 8, 8, 8, 8, 16, 8, 4, 4, 4]"

text \<open>\<open>b'EFI PART'\<close>, \<open>b'CHROMEOS'\<close> and \<open>b'IGNOREME'\<close>.\<close>

definition SIGNATURES :: "byte list list" where
  "SIGNATURES = [[0x45, 0x46, 0x49, 0x20, 0x50, 0x41, 0x52, 0x54],
                 [0x43, 0x48, 0x52, 0x4F, 0x4D, 0x45, 0x4F, 0x53]]"

definition SIGNATURE_IGNORE :: "byte list" where
  "SIGNATURE_IGNORE = [0x49, 0x47, 0x4E, 0x4F, 0x52, 0x45, 0x4D, 0x45]"

definition DEFAULT_REVISION :: "byte list" where
  "DEFAULT_REVISION = [0x00, 0x00, 0x01, 0x00]"

definition DEFAULT_PARTITION_ENTRIES :: int where
  "DEFAULT_PARTITION_ENTRIES = 128"

definition DEFAULT_PARTITIONS_LBA :: int where
  "DEFAULT_PARTITIONS_LBA = 2"

definition Header_Pack :: "Header \<Rightarrow> error + byte list" where
  "Header_Pack h = concat_results
     [Inr (pack_bytes 8 (Header.Signature h)),
      Inr (pack_bytes 4 (Revision h)),
      pack_uint 4 (HeaderSize h),
      pack_uint 4 (CRC32 h),
      Inr (pack_bytes 4 (Reserved h)),
      pack_uint 8 (CurrentLBA h),
      pack_uint 8 (BackupLBA h),
      pack_uint 8 (FirstUsableLBA h),
      pack_uint 8 (LastUsableLBA h),
      Inr (pack_bytes 16 (GUID_Pack (DiskGUID h))),
      pack_uint 8 (PartitionEntriesStartingLBA h),
      pack_uint 4 (PartitionEntriesNumber h),
      pack_uint 4 (PartitionEntrySize h),
      pack_uint 4 (PartitionArrayCRC32 h)]"

definition Header_Unpack :: "byte list \<Rightarrow> error + Header" where
  "Header_Unpack src =
     (case struct_unpack HEADER_WIDTHS src of Inl e \<Rightarrow> Inl e
      | Inr vs \<Rightarrow> Inr \<lparr>Header.Signature = vs ! 0, Revision = vs ! 1,
                       HeaderSize = le_int (vs ! 2), CRC32 = le_int (vs ! 3),
                       Reserved = vs ! 4, CurrentLBA = le_int (vs ! 5),
                       BackupLBA = le_int (vs ! 6), FirstUsableLBA = le_int (vs ! 7),
                       LastUsableLBA = le_int (vs ! 8), DiskGUID = GUID_Unpack (vs ! 9),
                       PartitionEntriesStartingLBA = le_int (vs ! 10),
                       PartitionEntriesNumber = le_int (vs ! 11),
                       PartitionEntrySize = le_int (vs ! 12),
                       PartitionArrayCRC32 = le_int (vs ! 13)\<rparr>)"

definition Header_ReadFrom :: "imgfile \<Rightarrow> int \<Rightarrow> error + Header" where
  "Header_ReadFrom f pos =
     (case file_read f pos (sum_list HEADER_WIDTHS) of Inl e \<Rightarrow> Inl e
      | Inr b \<Rightarrow> Header_Unpack b)"

text \<open>\<open>Zero()\<close> unpacks a stream of zero bytes: every field is its zero value.\<close>

definition Header_Zero :: Header where
  "Header_Zero = \<lparr>Header.Signature = replicate 8 0, Revision = replicate 4 0,
     HeaderSize = 0, CRC32 = 0, Reserved = replicate 4 0, CurrentLBA = 0, BackupLBA = 0,
     FirstUsableLBA = 0, LastUsableLBA = 0, DiskGUID = 0, PartitionEntriesStartingLBA = 0,
     PartitionEntriesNumber = 0, PartitionEntrySize = 0, PartitionArrayCRC32 = 0\<rparr>"

definition PARTITION_WIDTHS :: "nat list" where
  "PARTITION_WIDTHS = [16, 16, 8, 8, 8, 72]"

text \<open>
  \<open>Header.Create\<close>; the disk GUID that \<open>GUID.Random()\<close> draws is the argument
  \<open>disk_guid\<close>. \<open>//\<close> and \<open>%\<close> by a zero block size raise.
\<close>

definition Header_Create :: "guid \<Rightarrow> int \<Rightarrow> int \<Rightarrow> int \<Rightarrow> int \<Rightarrow> error + Header" where
  "Header_Create disk_guid sz bsize pad_blocks part_entries =
     (let part_entry_size = int (sum_list PARTITION_WIDTHS);
          parts_lba = DEFAULT_PARTITIONS_LBA + pad_blocks;
          parts_bytes = part_entries * part_entry_size
      in if bsize = 0 then Inl ZeroDivisionError
         else let parts_blocks = (if parts_bytes mod bsize \<noteq> 0
                                  then parts_bytes div bsize + 1 else parts_bytes div bsize)
              in Inr (Header_Zero\<lparr>
                   Header.Signature := SIGNATURES ! 0,
                   Revision := DEFAULT_REVISION,
                   HeaderSize := int (sum_list HEADER_WIDTHS),
                   CurrentLBA := 1,
                   BackupLBA := sz div bsize - 1,
                   FirstUsableLBA := parts_lba + parts_blocks,
                   LastUsableLBA := sz div bsize - parts_blocks - parts_lba,
                   DiskGUID := disk_guid,
                   PartitionEntriesStartingLBA := parts_lba,
                   PartitionEntriesNumber := part_entries,
                   PartitionEntrySize := part_entry_size\<rparr>))"

text \<open>
  \<open>Header.UpdateChecksum\<close>. The CRC32 function is a collaborator of the program
  (\<open>binascii.crc32\<close>), an argument \<open>crc\<close> of the model wherever a checksum is taken;
  its results are unsigned 32-bit values.
\<close>

definition Header_UpdateChecksum :: "(byte list \<Rightarrow> 32 word) \<Rightarrow> Header \<Rightarrow> error + Header" where
  "Header_UpdateChecksum crc h =
     (case Header_Pack (h\<lparr>CRC32 := 0\<rparr>) of Inl e \<Rightarrow> Inl e
      | Inr blob \<Rightarrow> Inr (h\<lparr>CRC32 := uint (crc blob)\<rparr>))"

subsection \<open>Partition\<close>

text \<open>
  The six packed fields and the meta data \<open>image\<close>, \<open>number\<close> and \<open>block_size\<close>,
  which \<open>Unpack\<close> and \<open>Zero\<close> leave alone. \<open>Attributes\<close> is the raw integer inside
  the \<open>PartitionAttributes\<close> wrapper.
\<close>

record Partition =
  TypeGUID :: guid
  UniqueGUID :: guid
  FirstLBA :: int
  LastLBA :: int
  Attributes :: int
  Names :: pystr
  image :: string
  number :: int
  block_size :: int

definition Partition_Pack :: "Partition \<Rightarrow> error + byte list" where
  "Partition_Pack p =
     (case UTF16_Pack 72 (Names p) of Inl e \<Rightarrow> Inl e
      | Inr nm \<Rightarrow> concat_results
          [Inr (pack_bytes 16 (GUID_Pack (TypeGUID p))),
           Inr (pack_bytes 16 (GUID_Pack (UniqueGUID p))),
           pack_uint 8 (FirstLBA p),
           pack_uint 8 (LastLBA p),
           pack_uint 8 (Attributes p),
           Inr (pack_bytes 72 nm)])"

definition Partition_Unpack :: "Partition \<Rightarrow> byte list \<Rightarrow> error + Partition" where
  "Partition_Unpack p src =
     (case struct_unpack PARTITION_WIDTHS src of Inl e \<Rightarrow> Inl e
      | Inr vs \<Rightarrow>
          (case UTF16_Unpack (vs ! 5) of Inl e \<Rightarrow> Inl e
           | Inr nm \<Rightarrow> Inr (p\<lparr>TypeGUID := GUID_Unpack (vs ! 0),
                               UniqueGUID := GUID_Unpack (vs ! 1),
                               FirstLBA := le_int (vs ! 2), LastLBA := le_int (vs ! 3),
                               Attributes := le_int (vs ! 4), Names := nm\<rparr>)))"

definition Partition_Zero :: "Partition \<Rightarrow> Partition" where
  "Partition_Zero p = p\<lparr>TypeGUID := 0, UniqueGUID := 0, FirstLBA := 0, LastLBA := 0,
                         Attributes := 0, Names := []\<rparr>"

text \<open>\<open>Partition(block_size=..., image=..., number=...)\<close>: zero fields and the meta data.\<close>

definition Partition_new :: "int \<Rightarrow> string \<Rightarrow> int \<Rightarrow> Partition" where
  "Partition_new bsize image_name n =
     \<lparr>TypeGUID = 0, UniqueGUID = 0, FirstLBA = 0, LastLBA = 0, Attributes = 0, Names = [],
      image = image_name, number = n, block_size = bsize\<rparr>"

definition Partition_ReadFrom :: "imgfile \<Rightarrow> int \<Rightarrow> int \<Rightarrow> int \<Rightarrow> error + Partition" where
  "Partition_ReadFrom f pos n bsize =
     (case file_read f pos (sum_list PARTITION_WIDTHS) of Inl e \<Rightarrow> Inl e
      | Inr b \<Rightarrow> Partition_Unpack (Partition_new bsize (file_name f) n) b)"

text \<open>The type GUIDs of \<open>TYPE_GUID_MAP\<close> and the aliases of \<open>TYPE_GUID_FROM_NAME\<close>.\<close>

definition TYPE_GUID_MAP :: "(guid \<times> string) list" where
  "TYPE_GUID_MAP =
     [(0x00000000000000000000000000000000, ''Unused''),
      (0xEBD0A0A2B9E5443387C068B6B72699C7, ''Basic data stateful''),
      (0x0FC63DAF848347728E793D69D8477DE4, ''Linux data''),
      (0xFE3A2A5D4F3241A7B725ACCC3285A309, ''ChromeOS kernel''),
      (0x3CB8E2023B7E47DD8A3C7FF2A13CFCEC, ''ChromeOS rootfs''),
      (0x2E0A753D9E4843B08337B15192CB1B5E, ''ChromeOS reserved''),
      (0xCAB6E88EABF34102A07AD4BB9BE3C1D3, ''ChromeOS firmware''),
      (0xC12A7328F81F11D2BA4B00A0C93EC93B, ''EFI System Partition''),
      (0x09845860705F4BB5B16C8A8A099CAF52, ''ChromeOS MINIOS''),
      (0x3F0F8318F1464E6B8222C28C8F02E0D5, ''ChromeOS hibernate'')]"

definition TYPE_GUID_FROM_NAME :: "(string \<times> guid) list" where
  "TYPE_GUID_FROM_NAME =
     [(''unused'', 0x00000000000000000000000000000000),
      (''stateful'', 0xEBD0A0A2B9E5443387C068B6B72699C7),
      (''data'', 0x0FC63DAF848347728E793D69D8477DE4),
      (''kernel'', 0xFE3A2A5D4F3241A7B725ACCC3285A309),
      (''rootfs'', 0x3CB8E2023B7E47DD8A3C7FF2A13CFCEC),
      (''reserved'', 0x2E0A753D9E4843B08337B15192CB1B5E),
      (''firmware'', 0xCAB6E88EABF34102A07AD4BB9BE3C1D3),
      (''efi'', 0xC12A7328F81F11D2BA4B00A0C93EC93B),
      (''minios'', 0x09845860705F4BB5B16C8A8A099CAF52),
      (''hibernate'', 0x3F0F8318F1464E6B8222C28C8F02E0D5)]"

definition TYPE_GUID_UNUSED :: guid where
  "TYPE_GUID_UNUSED = the (map_of TYPE_GUID_FROM_NAME ''unused'')"

definition TYPE_GUID_CHROMEOS_KERNEL :: guid where
  "TYPE_GUID_CHROMEOS_KERNEL = the (map_of TYPE_GUID_FROM_NAME ''kernel'')"

definition TYPE_GUID_LIST_BOOTABLE :: "guid list" where
  "TYPE_GUID_LIST_BOOTABLE =
     [TYPE_GUID_CHROMEOS_KERNEL, the (map_of TYPE_GUID_FROM_NAME ''efi'')]"

definition IsUnused :: "Partition \<Rightarrow> bool" where
  "IsUnused p = (TypeGUID p = TYPE_GUID_UNUSED)"

definition IsChromeOSKernel :: "Partition \<Rightarrow> bool" where
  "IsChromeOSKernel p = (TypeGUID p = TYPE_GUID_CHROMEOS_KERNEL)"

definition blocks :: "Partition \<Rightarrow> int" where
  "blocks p = LastLBA p - FirstLBA p + 1"

definition offset :: "Partition \<Rightarrow> int" where
  "offset p = FirstLBA p * Partition.block_size p"

section \<open>The GPT aggregate\<close>

record GPT =
  pmbr :: "ProtectiveMBR option"
  header :: Header
  partitions :: "Partition list"
  block_size :: int
  is_secondary :: bool

definition DEFAULT_BLOCK_SIZE :: int where
  "DEFAULT_BLOCK_SIZE = 512"

text \<open>\<open>GPT.Create\<close>: a fresh header and \<open>PartitionEntriesNumber\<close> unused entries.\<close>

definition GPT_Create :: "guid \<Rightarrow> string \<Rightarrow> int \<Rightarrow> int \<Rightarrow> int \<Rightarrow> error + GPT" where
  "GPT_Create disk_guid image_name sz bsize pad_blocks =
     (case Header_Create disk_guid sz bsize pad_blocks DEFAULT_PARTITION_ENTRIES of
        Inl e \<Rightarrow> Inl e
      | Inr h \<Rightarrow> Inr \<lparr>pmbr = None, header = h,
                      partitions = map (\<lambda>i. Partition_new bsize image_name (int i + 1))
                                       [0..<nat (PartitionEntriesNumber h)],
                      GPT.block_size = bsize, is_secondary = False\<rparr>)"

subsection \<open>LoadFromFile\<close>

text \<open>
  The two nested loops of \<open>LoadFromFile\<close>: for each candidate block size, in the order
  of the list, the header at \<open>block_size * 1\<close> from the start is read and tested, then
  the header at \<open>-block_size\<close> from the end (\<open>i = 1\<close>, which sets \<open>is_secondary\<close>);
  the first header whose signature is in \<open>SIGNATURES\<close> ends the search. With no
  candidate left the source raises \<open>GPTError\<close>.
\<close>

fun probe_block_sizes :: "imgfile \<Rightarrow> int list \<Rightarrow> error + (int \<times> bool \<times> Header)" where
  "probe_block_sizes f [] = Inl (GPTError ''Invalid signature in GPT header.'')"
| "probe_block_sizes f (bsize # rest) =
     (case Header_ReadFrom f (bsize * 1) of Inl e \<Rightarrow> Inl e
      | Inr h0 \<Rightarrow>
          if Header.Signature h0 \<in> set SIGNATURES then Inr (bsize, False, h0)
          else (case Header_ReadFrom f (GetImageSize f - bsize) of Inl e \<Rightarrow> Inl e
                | Inr h1 \<Rightarrow>
                    if Header.Signature h1 \<in> set SIGNATURES then Inr (bsize, True, h1)
                    else probe_block_sizes f rest))"

text \<open>
  The partition entries are read one after the other from the position of the seek,
  each of the size of the \<open>Partition\<close> format; entry \<open>i\<close> gets number \<open>i + 1\<close>.
\<close>

fun ReadPartitions :: "imgfile \<Rightarrow> int \<Rightarrow> int \<Rightarrow> nat list \<Rightarrow> error + Partition list" where
  "ReadPartitions f pos bsize [] = Inr []"
| "ReadPartitions f pos bsize (i # rest) =
     (case Partition_ReadFrom f (pos + int (sum_list PARTITION_WIDTHS) * int i) (int i + 1) bsize of
        Inl e \<Rightarrow> Inl e
      | Inr p \<Rightarrow> (case ReadPartitions f pos bsize rest of Inl e \<Rightarrow> Inl e
                   | Inr ps \<Rightarrow> Inr (p # ps)))"

definition LoadFromFile :: "imgfile \<Rightarrow> error + GPT" where
  "LoadFromFile f =
     (case ProtectiveMBR_ReadFrom f 0 of Inl e \<Rightarrow> Inl e
      | Inr m \<Rightarrow>
          let block_sizes = (case logical_block_size f of
                               Some b \<Rightarrow> [b] | None \<Rightarrow> [DEFAULT_BLOCK_SIZE, 4096])
          in (case probe_block_sizes f block_sizes of Inl e \<Rightarrow> Inl e
              | Inr (bsize, sec, h) \<Rightarrow>
                  let pos = bsize * PartitionEntriesStartingLBA h
                  in if pos < 0 then Inl OSError
                     else (case ReadPartitions f pos bsize [0..<nat (PartitionEntriesNumber h)] of
                             Inl e \<Rightarrow> Inl e
                           | Inr ps \<Rightarrow>
                               Inr \<lparr>pmbr = (if ProtectiveMBR.Signature m = PMBR_SIGNATURE
                                                \<and> Magic m = PMBR_MAGIC then Some m else None),
                                    header = h, partitions = ps,
                                    GPT.block_size = bsize, is_secondary = sec\<rparr>)))"

subsection \<open>Queries\<close>

definition GetUsedPartitions :: "GPT \<Rightarrow> Partition list" where
  "GetUsedPartitions gpt = filter (\<lambda>p. \<not> IsUnused p) (partitions gpt)"

text \<open>Python's \<open>max\<close> of a non-empty sequence.\<close>

fun py_max :: "int list \<Rightarrow> int" where
  "py_max [] = 0"
| "py_max (x # xs) = fold max xs x"

definition GetMaxUsedLBA :: "GPT \<Rightarrow> int" where
  "GetMaxUsedLBA gpt =
     (let parts = GetUsedPartitions gpt
      in if parts \<noteq> [] then py_max (map LastLBA parts) else FirstUsableLBA (header gpt) - 1)"

definition GetPartitionTableBlocks :: "GPT \<Rightarrow> Header \<Rightarrow> error + int" where
  "GetPartitionTableBlocks gpt h =
     (let sz = PartitionEntrySize h * PartitionEntriesNumber h
      in if GPT.block_size gpt = 0 then Inl ZeroDivisionError
         else Inr (if sz mod GPT.block_size gpt \<noteq> 0
                   then sz div GPT.block_size gpt + 1 else sz div GPT.block_size gpt))"

definition GetPartition :: "GPT \<Rightarrow> int \<Rightarrow> error + Partition" where
  "GetPartition gpt n =
     (if \<not> (0 < n \<and> n \<le> int (length (partitions gpt)))
      then Inl (GPTError ''Invalid partition number.'')
      else Inr (partitions gpt ! nat (n - 1)))"

definition GetSize :: "GPT \<Rightarrow> int" where
  "GetSize gpt = GPT.block_size gpt * (BackupLBA (header gpt) + 1)"

definition Resize :: "GPT \<Rightarrow> int \<Rightarrow> bool \<Rightarrow> error + GPT" where
  "Resize gpt new_size check_overlap =
     (let old_size = GetSize gpt
      in if GPT.block_size gpt = 0 then Inl ZeroDivisionError
         else if new_size mod GPT.block_size gpt \<noteq> 0
         then Inl (GPTError ''New file size is not valid for image files.'')
         else let new_blocks = new_size div GPT.block_size gpt
              in if old_size = new_size then Inr gpt
                 else let backup_lba = new_blocks - 1;
                          last_usable_lba = backup_lba - FirstUsableLBA (header gpt)
                      in if check_overlap \<and> last_usable_lba < LastUsableLBA (header gpt)
                            \<and> last_usable_lba < GetMaxUsedLBA gpt
                         then Inl (GPTError ''Backup partition tables will overlap used partitions'')
                         else Inr (gpt\<lparr>header := (header gpt)\<lparr>BackupLBA := backup_lba,
                                                       LastUsableLBA := last_usable_lba\<rparr>\<rparr>))"

definition GetFreeSpace :: "GPT \<Rightarrow> error + int" where
  "GetFreeSpace gpt =
     (let max_lba = GetMaxUsedLBA gpt
      in if \<not> max_lba \<le> LastUsableLBA (header gpt) then Inl AssertionError
         else Inr (GPT.block_size gpt * (LastUsableLBA (header gpt) - max_lba)))"

text \<open>
  \<open>ExpandPartition\<close> changes the partition object in place; the model returns the table
  with that entry replaced, and the pair \<open>(old_blocks, new_blocks)\<close>.
\<close>

definition ExpandPartition :: "GPT \<Rightarrow> int \<Rightarrow> int \<Rightarrow> error + (GPT \<times> int \<times> int)" where
  "ExpandPartition gpt n reserved_blocks =
     (case GetPartition gpt n of Inl e \<Rightarrow> Inl e
      | Inr p \<Rightarrow>
          if IsUnused p then Inl (GPTError ''Partition is unused.'')
          else let max_used_lba = GetMaxUsedLBA gpt
               in if max_used_lba > LastLBA p
                  then Inl (GPTError ''Cannot expand because it is not allocated at last.'')
                  else let old_blocks = blocks p;
                           p' = p\<lparr>LastLBA := LastUsableLBA (header gpt) - reserved_blocks\<rparr>;
                           new_blocks = blocks p'
                       in Inr (gpt\<lparr>partitions := (partitions gpt)[nat (n - 1) := p']\<rparr>,
                               old_blocks, new_blocks))"

definition IsLastPartition :: "GPT \<Rightarrow> int \<Rightarrow> error + bool" where
  "IsLastPartition gpt n =
     (case GetPartition gpt n of Inl e \<Rightarrow> Inl e
      | Inr p \<Rightarrow> Inr (\<not> IsUnused p \<and> GetMaxUsedLBA gpt = LastLBA p))"

subsection \<open>CheckIntegrity and the checksums\<close>

definition CheckOutsideUsable :: "Header \<Rightarrow> int \<Rightarrow> int \<Rightarrow> int \<Rightarrow> bool \<Rightarrow> error + unit" where
  "CheckOutsideUsable h entries_first_lba entries_last_lba lba outside_entries =
     (if lba < 1 then Inl (GPTError ''should not live in LBA'')
      else if lba > max (BackupLBA h) (CurrentLBA h)
      then Inl (GPTError ''should not be larger than BackupLBA'')
      else if FirstUsableLBA h \<le> lba \<and> lba \<le> LastUsableLBA h
      then Inl (GPTError ''should not be included in usable LBAs'')
      else if outside_entries \<and> entries_first_lba \<le> lba \<and> lba \<le> entries_last_lba
      then Inl (GPTError ''should be outside partition entries'')
      else Inr ())"

text \<open>The sweep over the list sorted by \<open>FirstLBA\<close>: neighbours must not touch.\<close>

fun overlap_sorted :: "Partition list \<Rightarrow> bool" where
  "overlap_sorted (p # q # rest) = (LastLBA p \<ge> FirstLBA q \<or> overlap_sorted (q # rest))"
| "overlap_sorted _ = False"

definition parts_blob :: "Partition list \<Rightarrow> error + byte list" where
  "parts_blob ps = concat_results (map Partition_Pack ps)"

text \<open>
  \<open>CheckIntegrity\<close>. The two checks of the first and the last partition format their
  message with \<open>header.FirstLBA\<close> and \<open>header.LastLBA\<close>, attributes a header does not
  have: what is raised there is \<open>AttributeError\<close>.
\<close>

definition CheckIntegrity :: "(byte list \<Rightarrow> 32 word) \<Rightarrow> GPT \<Rightarrow> error + unit" where
  "CheckIntegrity crc gpt =
     (let h = header gpt; efl = PartitionEntriesStartingLBA h
      in case GetPartitionTableBlocks gpt h of Inl e \<Rightarrow> Inl e
         | Inr tb \<Rightarrow>
      let ell = efl + tb - 1
      in case CheckOutsideUsable h efl ell (CurrentLBA h) True of Inl e \<Rightarrow> Inl e
         | Inr u1 \<Rightarrow>
      case CheckOutsideUsable h efl ell (BackupLBA h) True of Inl e \<Rightarrow> Inl e
         | Inr u2 \<Rightarrow>
      case CheckOutsideUsable h efl ell efl False of Inl e \<Rightarrow> Inl e
         | Inr u3 \<Rightarrow>
      case CheckOutsideUsable h efl ell ell False of Inl e \<Rightarrow> Inl e
         | Inr u4 \<Rightarrow>
      let parts = GetUsedPartitions gpt; lba_list = sort_key FirstLBA parts
      in if overlap_sorted lba_list then Inl (GPTError ''Overlap in partition entries'')
         else if lba_list \<noteq> [] \<and> FirstLBA (hd lba_list) < FirstUsableLBA h
         then Inl AttributeError
         else if lba_list \<noteq> [] \<and> LastLBA (last lba_list) > LastUsableLBA h
         then Inl AttributeError
         else if length (remdups (map UniqueGUID parts)) \<noteq> length parts
         then Inl (GPTError ''Partition UniqueGUIDs are duplicated.'')
         else (case parts_blob (partitions gpt) of Inl e \<Rightarrow> Inl e
               | Inr blob \<Rightarrow>
                   if uint (crc blob) \<noteq> PartitionArrayCRC32 h
                   then Inl (GPTError ''GPT Header PartitionArrayCRC32 does not match.'')
                   else (case Header_UpdateChecksum crc h of Inl e \<Rightarrow> Inl e
                         | Inr header_crc \<Rightarrow>
                             if CRC32 header_crc \<noteq> CRC32 h
                             then Inl (GPTError ''GPT Header CRC32 does not match.'')
                             else Inr ())))"

definition UpdateChecksum :: "(byte list \<Rightarrow> 32 word) \<Rightarrow> GPT \<Rightarrow> error + GPT" where
  "UpdateChecksum crc gpt =
     (case parts_blob (partitions gpt) of Inl e \<Rightarrow> Inl e
      | Inr parts \<Rightarrow>
          (case Header_UpdateChecksum crc ((header gpt)\<lparr>PartitionArrayCRC32 := uint (crc parts)\<rparr>) of
             Inl e \<Rightarrow> Inl e
           | Inr h \<Rightarrow> Inr (gpt\<lparr>header := h\<rparr>)))"

definition GetBackupHeader :: "(byte list \<Rightarrow> 32 word) \<Rightarrow> GPT \<Rightarrow> Header \<Rightarrow> error + Header" where
  "GetBackupHeader crc gpt h =
     (case GetPartitionTableBlocks gpt (header gpt) of Inl e \<Rightarrow> Inl e
      | Inr tb \<Rightarrow>
          let partitions_starting_lba = BackupLBA h - tb
          in Header_UpdateChecksum crc
               (h\<lparr>BackupLBA := CurrentLBA h, CurrentLBA := BackupLBA h,
                  PartitionEntriesStartingLBA := partitions_starting_lba\<rparr>))"

subsection \<open>WriteProtectiveMBR and WriteToFile\<close>

text \<open>
  \<open>WriteProtectiveMBR(image, create, bootcode, boot_guid)\<close>; \<open>bootcode\<close> and
  \<open>boot_guid\<close> default to \<open>None\<close>. The first twelve bytes of \<open>part0\<close> are
  \<open>codecs.decode('00000200eeffffff01000000', 'hex')\<close>, the last four are
  \<open>struct.pack('<I', legacy_sectors)\<close>. \<open>part1\<close>, the string of sixteen NUL characters,
  is stored as the sixteen zero bytes that packing it gives.
\<close>

definition legacy_sectors :: "imgfile \<Rightarrow> int" where
  "legacy_sectors f = min 0x100000000 (GetImageSize f div DEFAULT_BLOCK_SIZE) - 1"

text \<open>The three conditional blocks of \<open>WriteProtectiveMBR\<close>, in their order.\<close>

definition pmbr_recreate :: "imgfile \<Rightarrow> ProtectiveMBR \<Rightarrow> error + ProtectiveMBR" where
  "pmbr_recreate f m =
     (case pack_uint 4 (legacy_sectors f) of Inl e \<Rightarrow> Inl e
      | Inr cnt \<Rightarrow>
          let part0 = [0x00, 0x00, 0x02, 0x00, 0xee, 0xff, 0xff, 0xff,
                       0x01, 0x00, 0x00, 0x00] @ cnt;
              part1 = replicate 16 (0::byte)
          in if \<not> (length part0 = length part1 \<and> length part1 = 16)
             then Inl AssertionError
             else Inr (m\<lparr>BootGUID := TYPE_GUID_UNUSED, DiskID := 0,
                         Magic := PMBR_MAGIC, LegacyPart0 := part0,
                         LegacyPart1 := part1, LegacyPart2 := part1,
                         LegacyPart3 := part1,
                         ProtectiveMBR.Signature := PMBR_SIGNATURE\<rparr>))"

definition pmbr_set_bootcode :: "byte list option \<Rightarrow> ProtectiveMBR \<Rightarrow> ProtectiveMBR" where
  "pmbr_set_bootcode bootcode m =
     (case bootcode of
        None \<Rightarrow> m
      | Some bc \<Rightarrow>
          if bc = [] then m
          else if length bc > length (BootCode m)
          then m\<lparr>BootCode := take (length (BootCode m)) bc\<rparr>
          else m\<lparr>BootCode := bc\<rparr>)"

definition pmbr_set_boot_guid :: "guid option \<Rightarrow> ProtectiveMBR \<Rightarrow> ProtectiveMBR" where
  "pmbr_set_boot_guid boot_guid m =
     (case boot_guid of None \<Rightarrow> m | Some g \<Rightarrow> m\<lparr>BootGUID := g\<rparr>)"

definition WriteProtectiveMBR ::
  "imgfile \<Rightarrow> bool \<Rightarrow> byte list option \<Rightarrow> guid option \<Rightarrow> error + (imgfile \<times> ProtectiveMBR)" where
  "WriteProtectiveMBR f create bootcode boot_guid =
     (if int (sum_list PMBR_WIDTHS) \<noteq> DEFAULT_BLOCK_SIZE then Inl AssertionError
      else case ProtectiveMBR_ReadFrom f 0 of Inl e \<Rightarrow> Inl e
      | Inr m0 \<Rightarrow>
      (case (if create then pmbr_recreate f m0 else Inr m0) of Inl e \<Rightarrow> Inl e
       | Inr m1 \<Rightarrow>
           let m3 = pmbr_set_boot_guid boot_guid (pmbr_set_bootcode bootcode m1)
           in (case ProtectiveMBR_Pack m3 of Inl e \<Rightarrow> Inl e
               | Inr blob \<Rightarrow>
                   if int (length blob) \<noteq> DEFAULT_BLOCK_SIZE then Inl AssertionError
                   else (case file_write f 0 blob of Inl e \<Rightarrow> Inl e
                         | Inr f' \<Rightarrow> Inr (f', m3)))))"

text \<open>The sector count of the first legacy partition entry: its last four bytes.\<close>

definition sector_count :: "ProtectiveMBR \<Rightarrow> int" where
  "sector_count m = le_int (drop 12 (LegacyPart0 m))"

text \<open>
  \<open>WriteToFile\<close>: checksums, integrity check, then header and table at the primary
  location, and the mirrored table and header unless this is the backup copy. The model
  returns the table with its checksums updated and the file written.
\<close>

definition WriteData :: "GPT \<Rightarrow> imgfile \<Rightarrow> byte list \<Rightarrow> int \<Rightarrow> error + imgfile" where
  "WriteData gpt f blob lba = file_write f (lba * GPT.block_size gpt) blob"

definition WriteToFile :: "(byte list \<Rightarrow> 32 word) \<Rightarrow> GPT \<Rightarrow> imgfile \<Rightarrow> error + (GPT \<times> imgfile)" where
  "WriteToFile crc gpt0 f =
     (case UpdateChecksum crc gpt0 of Inl e \<Rightarrow> Inl e
      | Inr gpt \<Rightarrow>
      case CheckIntegrity crc gpt of Inl e \<Rightarrow> Inl e
      | Inr u \<Rightarrow>
      case parts_blob (partitions gpt) of Inl e \<Rightarrow> Inl e
      | Inr pblob \<Rightarrow>
      case Header_Pack (header gpt) of Inl e \<Rightarrow> Inl e
      | Inr hblob \<Rightarrow>
      case WriteData gpt f hblob (CurrentLBA (header gpt)) of Inl e \<Rightarrow> Inl e
      | Inr f1 \<Rightarrow>
      case WriteData gpt f1 pblob (PartitionEntriesStartingLBA (header gpt)) of Inl e \<Rightarrow> Inl e
      | Inr f2 \<Rightarrow>
      if is_secondary gpt then Inr (gpt, f2)
      else (case GetBackupHeader crc gpt (header gpt) of Inl e \<Rightarrow> Inl e
            | Inr backup_header \<Rightarrow>
            case WriteData gpt f2 pblob (PartitionEntriesStartingLBA backup_header) of
              Inl e \<Rightarrow> Inl e
            | Inr f3 \<Rightarrow>
            case Header_Pack backup_header of Inl e \<Rightarrow> Inl e
            | Inr bblob \<Rightarrow>
            case WriteData gpt f3 bblob (CurrentLBA backup_header) of Inl e \<Rightarrow> Inl e
            | Inr f4 \<Rightarrow> Inr (gpt, f4)))"

subsection \<open>The order of the probes\<close>

text \<open>
  A probe is a candidate block size and whether the backup location is read. The list
  \<open>probe_order sizes\<close> is the order in which the loops of \<open>LoadFromFile\<close> visit the
  probes; \<open>probe_position\<close> is the position of the seek; \<open>first_valid\<close> is the first
  probe of a list at which a header with a valid signature can be read.
\<close>

definition probe_order :: "int list \<Rightarrow> (int \<times> bool) list" where
  "probe_order sizes = concat (map (\<lambda>b. [(b, False), (b, True)]) sizes)"

text \<open>
  The order as the specification words it, for the candidates 512 and 4096: for each
  candidate the backup location before the primary one.
\<close>

definition spec_probe_order :: "(int \<times> bool) list" where
  "spec_probe_order = [(512, True), (512, False), (4096, True), (4096, False)]"

definition probe_position :: "imgfile \<Rightarrow> int \<times> bool \<Rightarrow> int" where
  "probe_position f c = (if snd c then GetImageSize f - fst c else fst c * 1)"

definition valid_header_at :: "imgfile \<Rightarrow> int \<Rightarrow> bool" where
  "valid_header_at f pos =
     (case Header_ReadFrom f pos of Inl e \<Rightarrow> False
      | Inr h \<Rightarrow> Header.Signature h \<in> set SIGNATURES)"

definition first_valid :: "imgfile \<Rightarrow> (int \<times> bool) list \<Rightarrow> (int \<times> bool) option" where
  "first_valid f order = find (\<lambda>c. valid_header_at f (probe_position f c)) order"

definition loaded_as :: "imgfile \<Rightarrow> (int \<times> bool) option" where
  "loaded_as f = (case LoadFromFile f of Inl e \<Rightarrow> None
                  | Inr g \<Rightarrow> Some (GPT.block_size g, is_secondary g))"

section \<open>The command layer\<close>

subsection \<open>Prioritize\<close>

text \<open>
  The arguments \<open>-P\<close>, \<open>-i\<close> and \<open>-f\<close>. Partition objects are shared between
  \<open>gpt.partitions\<close>, \<open>parts\<close> and the groups, and compared by identity: the model
  names a partition by its index in the table. A Python \<open>dict\<close> is an association list
  with distinct keys in insertion order.
\<close>

record Prioritize_args =
  arg_priority :: "int option"
  arg_number :: "int option"
  arg_friends :: bool

definition part_priority :: "Partition \<Rightarrow> int" where
  "part_priority p = attr_get priority (Attributes p)"

text \<open>\<open>itertools.groupby\<close>: the runs of consecutive elements with equal keys.\<close>

function groupby :: "('a \<Rightarrow> 'k) \<Rightarrow> 'a list \<Rightarrow> ('k \<times> 'a list) list" where
  "groupby f [] = []"
| "groupby f (x # xs) =
     (f x, x # takeWhile (\<lambda>y. f y = f x) xs) # groupby f (dropWhile (\<lambda>y. f y = f x) xs)"
  by pat_completeness auto
termination
  by (relation "measure (\<lambda>(f, xs). length xs)") (auto simp: length_dropWhile_le less_Suc_eq_le)

text \<open>
  \<open>parts\<close>: the kernel partitions, sorted by priority, highest first; the sort is stable.
  \<open>groups\<close>: the dictionary built from the runs of equal priority.
\<close>

definition kernel_parts :: "Partition list \<Rightarrow> nat list" where
  "kernel_parts ps =
     sort_key (\<lambda>i. - part_priority (ps ! i))
       (filter (\<lambda>i. IsChromeOSKernel (ps ! i)) [0..<length ps])"

definition priority_groups :: "Partition list \<Rightarrow> (int \<times> nat list) list" where
  "priority_groups ps =
     fold (\<lambda>(k, g) d. AList.update k g d)
       (groupby (\<lambda>i. part_priority (ps ! i)) (kernel_parts ps)) []"

text \<open>
  The block under \<open>if args.number\<close>: the target leaves its group and enters a new group
  above all others, alone or with its friends.
\<close>

definition promote ::
  "GPT \<Rightarrow> int \<Rightarrow> bool \<Rightarrow> (int \<times> nat list) list \<Rightarrow> error + (int \<times> nat list) list" where
  "promote gpt n with_friends groups =
     (case GetPartition gpt n of Inl e \<Rightarrow> Inl e
      | Inr p \<Rightarrow>
          let i = nat (n - 1)
          in if i \<notin> set (kernel_parts (partitions gpt))
             then Inl (GPTError ''is not a ChromeOS kernel.'')
             else let pri = part_priority p
                  in (case map_of groups pri of None \<Rightarrow> Inl KeyError
                      | Some friends \<Rightarrow>
                          let g1 = AList.delete pri groups
                          in if g1 = [] then Inl ValueError
                             else let new_pri = py_max (map fst g1) + 1
                                  in if with_friends then Inr (AList.update new_pri friends g1)
                                     else let g2 = AList.update new_pri [i] g1
                                          in if i \<notin> set friends then Inl ValueError
                                             else if remove1 i friends \<noteq> []
                                             then Inr (AList.update pri (remove1 i friends) g2)
                                             else Inr g2))"

definition Prioritize_groups :: "Prioritize_args \<Rightarrow> GPT \<Rightarrow> error + (int \<times> nat list) list" where
  "Prioritize_groups args gpt =
     (case (case arg_number args of
              None \<Rightarrow> Inr (priority_groups (partitions gpt))
            | Some n \<Rightarrow>
                if n = 0 then Inr (priority_groups (partitions gpt))
                else promote gpt n (arg_friends args) (priority_groups (partitions gpt))) of
        Inl e \<Rightarrow> Inl e
      | Inr groups \<Rightarrow> Inr (AList.delete 0 groups))"

text \<open>The body of the inner loop: one partition gets its new priority.\<close>

definition reprioritize :: "int \<Rightarrow> Partition \<Rightarrow> error + Partition" where
  "reprioritize new_priority p =
     (let attrs = Attributes p; old_priority = attr_get priority attrs
      in if old_priority = new_priority then Inr p
         else (case attr_set priority attrs new_priority of Inl e \<Rightarrow> Inl e
               | Inr a1 \<Rightarrow>
                   if attr_get tries a1 < 1 \<and> attr_get successful a1 = 0
                   then (case attr_set tries a1 15 of Inl e \<Rightarrow> Inl e
                         | Inr a2 \<Rightarrow> Inr (p\<lparr>Attributes := a2\<rparr>))
                   else Inr (p\<lparr>Attributes := a1\<rparr>)))"

fun set_group :: "int \<Rightarrow> nat list \<Rightarrow> Partition list \<Rightarrow> error + Partition list" where
  "set_group new_priority [] ps = Inr ps"
| "set_group new_priority (i # rest) ps =
     (case reprioritize new_priority (ps ! i) of Inl e \<Rightarrow> Inl e
      | Inr p' \<Rightarrow> set_group new_priority rest (ps[i := p']))"

fun set_groups ::
  "int \<Rightarrow> (int \<times> nat list) list \<Rightarrow> (nat \<times> int) list \<Rightarrow> Partition list \<Rightarrow> error + Partition list" where
  "set_groups highest groups [] ps = Inr ps"
| "set_groups highest groups ((i, pri) # rest) ps =
     (case map_of groups pri of None \<Rightarrow> Inl KeyError
      | Some members \<Rightarrow>
          (case set_group (max 1 (highest - int i)) members ps of Inl e \<Rightarrow> Inl e
           | Inr ps' \<Rightarrow> set_groups highest groups rest ps'))"

definition new_highest :: "Prioritize_args \<Rightarrow> int list \<Rightarrow> int" where
  "new_highest args prios =
     min (case arg_priority args of
            None \<Rightarrow> int (length prios)
          | Some v \<Rightarrow> if v = 0 then int (length prios) else v) 0xf"

text \<open>What \<open>Prioritize\<close> does to the loaded table before it is written back.\<close>

definition Prioritize_update :: "Prioritize_args \<Rightarrow> GPT \<Rightarrow> error + GPT" where
  "Prioritize_update args gpt =
     (case Prioritize_groups args gpt of Inl e \<Rightarrow> Inl e
      | Inr groups \<Rightarrow>
          let prios = rev (sort (map fst groups))
          in (case set_groups (new_highest args prios) groups (enumerate 0 prios)
                     (partitions gpt) of
                Inl e \<Rightarrow> Inl e
              | Inr ps' \<Rightarrow> Inr (gpt\<lparr>partitions := ps'\<rparr>)))"

definition Prioritize_Execute ::
  "(byte list \<Rightarrow> 32 word) \<Rightarrow> Prioritize_args \<Rightarrow> imgfile \<Rightarrow> error + (GPT \<times> imgfile)" where
  "Prioritize_Execute crc args f =
     (case LoadFromFile f of Inl e \<Rightarrow> Inl e
      | Inr gpt \<Rightarrow>
          (case Prioritize_update args gpt of Inl e \<Rightarrow> Inl e
           | Inr gpt' \<Rightarrow> WriteToFile crc gpt' f))"

section \<open>Concrete tables and images\<close>

text \<open>A table of three entries: a kernel partition, a data partition behind it, an unused entry.\<close>

definition C4_part :: "guid \<Rightarrow> int \<Rightarrow> int \<Rightarrow> int \<Rightarrow> Partition" where
  "C4_part t first lst k = \<lparr>TypeGUID = t, UniqueGUID = word_of_int k, FirstLBA = first,
     LastLBA = lst, Attributes = 0, Names = [], image = ''disk.bin'', number = k,
     Partition.block_size = 512\<rparr>"

definition C4_gpt :: GPT where
  "C4_gpt = \<lparr>pmbr = None,
     header = Header_Zero\<lparr>FirstUsableLBA := 34, LastUsableLBA := 1000\<rparr>,
     partitions = [C4_part TYPE_GUID_CHROMEOS_KERNEL 34 99 1,
                   C4_part (the (map_of TYPE_GUID_FROM_NAME ''data'')) 100 499 2,
                   C4_part TYPE_GUID_UNUSED 0 0 3],
     GPT.block_size = 512, is_secondary = False\<rparr>"

text \<open>A plain image file of \<open>2 ^ 41\<close> zero bytes, that is \<open>2 ^ 32\<close> sectors of 512 bytes.\<close>

definition C6_big_image :: imgfile where
  "C6_big_image = \<lparr>file_name = ''disk.bin'', logical_block_size = None,
                    content = replicate (2 ^ 41) 0\<rparr>"

text \<open>A plain image file of 100 sectors, all zero.\<close>

definition C6_small_image :: imgfile where
  "C6_small_image = \<lparr>file_name = ''disk.bin'', logical_block_size = None,
                      content = replicate 51200 0\<rparr>"

text \<open>
  An image of nine sectors with \<open>EFI PART\<close> at the start of the second sector and
  \<open>CHROMEOS\<close> at the start of the last one, zero elsewhere, and what it loads as.
\<close>

definition C1_image :: imgfile where
  "C1_image = \<lparr>file_name = ''disk.bin'', logical_block_size = None,
     content = replicate 512 0
       @ [0x45, 0x46, 0x49, 0x20, 0x50, 0x41, 0x52, 0x54] @ replicate 504 0
       @ replicate 3072 0
       @ [0x43, 0x48, 0x52, 0x4F, 0x4D, 0x45, 0x4F, 0x53] @ replicate 504 0\<rparr>"

definition C1_gpt :: GPT where
  "C1_gpt = \<lparr>pmbr = None, header = Header_Zero\<lparr>Header.Signature := SIGNATURES ! 0\<rparr>,
              partitions = [], GPT.block_size = 512, is_secondary = False\<rparr>"

section \<open>Auxiliary facts\<close>

subsection \<open>The highest used LBA\<close>

lemma py_max_Max: "xs \<noteq> [] \<Longrightarrow> py_max xs = Max (set xs)"
  using Max.set_eq_fold [of "hd xs" "tl xs"] by (cases xs) simp_all

lemma py_max_ge: "x \<in> set xs \<Longrightarrow> x \<le> py_max xs"
  using py_max_Max [of xs] by (cases "xs = []") auto

lemma py_max_mem: "xs \<noteq> [] \<Longrightarrow> py_max xs \<in> set xs"
  using py_max_Max [of xs] Max_in [of "set xs"] by auto

lemma GetMaxUsedLBA_ge:
  "q \<in> set (partitions gpt) \<Longrightarrow> \<not> IsUnused q \<Longrightarrow> LastLBA q \<le> GetMaxUsedLBA gpt"
  unfolding GetMaxUsedLBA_def GetUsedPartitions_def Let_def
  by (auto intro!: py_max_ge simp: filter_empty_conv)

lemma GetMaxUsedLBA_le:
  assumes "p \<in> set (partitions gpt)" "\<not> IsUnused p"
    and "\<forall>q\<in>set (partitions gpt). \<not> IsUnused q \<longrightarrow> LastLBA q \<le> m"
  shows "GetMaxUsedLBA gpt \<le> m"
proof -
  let ?ps = "filter (\<lambda>p. \<not> IsUnused p) (partitions gpt)"
  have ne: "?ps \<noteq> []" using assms(1,2) by (auto simp: filter_empty_conv)
  then have "py_max (map LastLBA ?ps) \<in> set (map LastLBA ?ps)" by (intro py_max_mem) simp
  then obtain q where "q \<in> set ?ps" "py_max (map LastLBA ?ps) = LastLBA q" by auto
  then show ?thesis using ne assms(3)
    by (auto simp: GetMaxUsedLBA_def GetUsedPartitions_def Let_def)
qed

lemmas C4_eval = C4_gpt_def C4_part_def IsUnused_def TYPE_GUID_UNUSED_def
  TYPE_GUID_FROM_NAME_def TYPE_GUID_CHROMEOS_KERNEL_def Header_Zero_def blocks_def

subsection \<open>Packing and unpacking\<close>

lemma length_le_bytes [simp]: "length (le_bytes n x) = n"
  by (induction n arbitrary: x) simp_all

lemma length_pack_bytes [simp]: "length (pack_bytes n v) = n"
  by (simp add: pack_bytes_def)

lemma pack_bytes_id [simp]: "length v = n \<Longrightarrow> pack_bytes n v = v"
  by (simp add: pack_bytes_def)

lemma le_int_le_bytes: "0 \<le> x \<Longrightarrow> x < 256 ^ n \<Longrightarrow> le_int (le_bytes n x) = x"
proof (induction n arbitrary: x)
  case 0
  then show ?case by simp
next
  case (Suc n)
  have "x < 256 ^ n * 256" using Suc.prems by (simp add: mult.commute)
  then have "x div 256 < 256 ^ n" by (simp add: div_less_iff_less_mult)
  moreover have "0 \<le> x div 256" using Suc.prems by simp
  ultimately have "le_int (le_bytes n (x div 256)) = x div 256" by (rule Suc.IH[rotated])
  moreover have "uint (word_of_int x :: byte) = x mod 256"
    by (simp add: uint_word_of_int_eq take_bit_eq_mod)
  ultimately show ?case by simp
qed

lemma le_int_bounds: "0 \<le> le_int bs \<and> le_int bs < 256 ^ length bs"
proof (induction bs)
  case Nil
  then show ?case by simp
next
  case (Cons b bs)
  have "uint b < 256" using uint_bounded [of b] by simp
  moreover have "0 \<le> uint b" by simp
  ultimately show ?case using Cons by simp
qed

lemma length_GUID_Pack [simp]: "length (GUID_Pack g) = 16"
  by (simp add: GUID_Pack_def swap_le_def be_bytes_def slice_def)

lemma length_slice: "off + n \<le> length xs \<Longrightarrow> length (slice off n xs) = n"
  by (simp add: slice_def)

lemma split_fields_length: "length (split_fields ns xs) = length ns"
  by (induction ns arbitrary: xs) simp_all

lemma ProtectiveMBR_ReadFrom_ok:
  assumes "512 \<le> length (content f)"
  shows "\<exists>m. ProtectiveMBR_ReadFrom f 0 = Inr m \<and> length (BootCode m) = 424"
  using assms
  by (simp add: ProtectiveMBR_ReadFrom_def file_read_def PMBR_WIDTHS_def
      ProtectiveMBR_Unpack_def struct_unpack_def slice_def)

lemma legacy_sectors_range:
  assumes "512 \<le> length (content f)"
  shows "0 \<le> legacy_sectors f \<and> legacy_sectors f < 256 ^ 4"
proof -
  have "1 \<le> GetImageSize f div 512" using assms by (simp add: GetImageSize_def)
  then show ?thesis by (simp add: legacy_sectors_def DEFAULT_BLOCK_SIZE_def)
qed

lemma ProtectiveMBR_Pack_ok:
  assumes "0 \<le> DiskID m" "DiskID m < 256 ^ 4"
  shows "ProtectiveMBR_Pack m = Inr
     (pack_bytes 424 (BootCode m) @ GUID_Pack (BootGUID m) @ le_bytes 4 (DiskID m)
      @ pack_bytes 2 (Magic m) @ pack_bytes 16 (LegacyPart0 m) @ pack_bytes 16 (LegacyPart1 m)
      @ pack_bytes 16 (LegacyPart2 m) @ pack_bytes 16 (LegacyPart3 m)
      @ pack_bytes 2 (ProtectiveMBR.Signature m))"
  using assms by (simp add: ProtectiveMBR_Pack_def pack_uint_def)

lemma WriteProtectiveMBR_create:
  assumes len: "512 \<le> length (content f)"
  shows "\<exists>f' m. WriteProtectiveMBR f True bootcode boot_guid = Inr (f', m)
           \<and> LegacyPart0 m = [0x00, 0x00, 0x02, 0x00, 0xee, 0xff, 0xff, 0xff,
                               0x01, 0x00, 0x00, 0x00] @ le_bytes 4 (legacy_sectors f)
           \<and> slice 446 16 (content f') = LegacyPart0 m
           \<and> length (content f') = length (content f)"
proof -
  obtain m0 where m0: "ProtectiveMBR_ReadFrom f 0 = Inr m0"
    using ProtectiveMBR_ReadFrom_ok [OF len] by blast
  let ?part0 = "[0x00, 0x00, 0x02, 0x00, 0xee, 0xff, 0xff, 0xff,
                 0x01, 0x00, 0x00, 0x00] @ le_bytes 4 (legacy_sectors f)"
  have cnt: "pack_uint 4 (legacy_sectors f) = Inr (le_bytes 4 (legacy_sectors f))"
    using legacy_sectors_range [OF len] by (simp add: pack_uint_def)
  obtain m1 where m1: "pmbr_recreate f m0 = Inr m1" "DiskID m1 = 0" "LegacyPart0 m1 = ?part0"
    by (simp add: pmbr_recreate_def cnt Let_def)
  define m3 where "m3 = pmbr_set_boot_guid boot_guid (pmbr_set_bootcode bootcode m1)"
  have m3: "DiskID m3 = 0" "LegacyPart0 m3 = ?part0"
    using m1 by (simp_all add: m3_def pmbr_set_boot_guid_def pmbr_set_bootcode_def
        split: option.splits)
  have pk: "ProtectiveMBR_Pack m3 = Inr
     (pack_bytes 424 (BootCode m3) @ GUID_Pack (BootGUID m3) @ le_bytes 4 (DiskID m3)
      @ pack_bytes 2 (Magic m3) @ pack_bytes 16 (LegacyPart0 m3) @ pack_bytes 16 (LegacyPart1 m3)
      @ pack_bytes 16 (LegacyPart2 m3) @ pack_bytes 16 (LegacyPart3 m3)
      @ pack_bytes 2 (ProtectiveMBR.Signature m3))" (is "_ = Inr ?blob")
    by (rule ProtectiveMBR_Pack_ok) (simp_all add: m3)
  have bl: "length ?blob = 512" by simp
  have p0: "pack_bytes 16 (LegacyPart0 m3) = ?part0" by (simp add: m3)
  have sl: "slice 446 16 ?blob = ?part0"
    unfolding p0 by (simp add: slice_def)
  define blob where "blob = ?blob"
  let ?f' = "f\<lparr>content := blob @ drop 512 (content f)\<rparr>"
  have bl': "length blob = 512" using bl by (simp add: blob_def)
  have fw: "file_write f 0 blob = Inr ?f'"
    using len bl' by (simp add: file_write_def Let_def)
  have "WriteProtectiveMBR f True bootcode boot_guid = Inr (?f', m3)"
    unfolding WriteProtectiveMBR_def
    using bl' by (simp add: m0 m1 PMBR_WIDTHS_def DEFAULT_BLOCK_SIZE_def Let_def
        m3_def [symmetric] pk blob_def [symmetric] fw)
  moreover have "slice 446 16 (content ?f') = LegacyPart0 m3"
  proof -
    have "slice 446 16 blob = ?part0" using sl by (simp only: blob_def)
    then show ?thesis using bl' by (simp add: slice_def m3)
  qed
  moreover have "length (content ?f') = length (content f)" using len bl' by simp
  ultimately show ?thesis using m3 by blast
qed

lemma sector_count_created:
  assumes "512 \<le> length (content f)"
    and "LegacyPart0 m = [0x00, 0x00, 0x02, 0x00, 0xee, 0xff, 0xff, 0xff,
                          0x01, 0x00, 0x00, 0x00] @ le_bytes 4 (legacy_sectors f)"
  shows "sector_count m = legacy_sectors f"
  using legacy_sectors_range [OF assms(1)]
  by (simp add: sector_count_def assms(2) le_int_le_bytes)

subsection \<open>Probing\<close>

lemma le_int_replicate_0 [simp]: "le_int (replicate n 0) = 0"
  by (induction n) simp_all

lemma le_int_append: "le_int (xs @ ys) = le_int xs + 256 ^ length xs * le_int ys"
  by (induction xs) (simp_all add: algebra_simps)

lemma Header_ReadFrom_ok:
  assumes "0 \<le> pos" "nat pos + 92 \<le> length (content f)"
  shows "\<exists>h. Header_ReadFrom f pos = Inr h"
proof -
  have "length (slice (nat pos) 92 (content f)) = 92" using assms(2) by (simp add: slice_def)
  then show ?thesis using assms(1)
    by (simp add: Header_ReadFrom_def file_read_def HEADER_WIDTHS_def Header_Unpack_def
        struct_unpack_def)
qed

lemma probe_one:
  "probe_block_sizes f (bs # rest) =
     (case Header_ReadFrom f bs of Inl e \<Rightarrow> Inl e
      | Inr h0 \<Rightarrow>
          if Header.Signature h0 \<in> set SIGNATURES then Inr (bs, False, h0)
          else (case Header_ReadFrom f (GetImageSize f - bs) of Inl e \<Rightarrow> Inl e
                | Inr h1 \<Rightarrow>
                    if Header.Signature h1 \<in> set SIGNATURES then Inr (bs, True, h1)
                    else probe_block_sizes f rest))"
  by simp

lemma first_valid_Cons:
  "first_valid f (c # cs) =
     (if valid_header_at f (probe_position f c) then Some c else first_valid f cs)"
  by (simp add: first_valid_def)

lemma first_valid_Nil: "first_valid f [] = None"
  by (simp add: first_valid_def)

lemma probe_pair:
  assumes "Header_ReadFrom f bs = Inr h0" "Header_ReadFrom f (GetImageSize f - bs) = Inr h1"
  shows "probe_block_sizes f (bs # rest) =
           (if Header.Signature h0 \<in> set SIGNATURES then Inr (bs, False, h0)
            else if Header.Signature h1 \<in> set SIGNATURES then Inr (bs, True, h1)
            else probe_block_sizes f rest)"
    and "first_valid f ((bs, False) # (bs, True) # cs) =
           (if Header.Signature h0 \<in> set SIGNATURES then Some (bs, False)
            else if Header.Signature h1 \<in> set SIGNATURES then Some (bs, True)
            else first_valid f cs)"
  using assms
  by (simp_all add: probe_one first_valid_Cons valid_header_at_def probe_position_def
      del: probe_block_sizes.simps)

lemma probe_order_Cons: "probe_order (b # rest) = (b, False) # (b, True) # probe_order rest"
  by (simp add: probe_order_def)

lemma probe_order_default:
  "probe_order [DEFAULT_BLOCK_SIZE, 4096] = [(512, False), (512, True), (4096, False), (4096, True)]"
  by (simp add: probe_order_def DEFAULT_BLOCK_SIZE_def)

lemma probe_sound:
  "probe_block_sizes f sizes = Inr (bs, sec, h) \<Longrightarrow>
     first_valid f (probe_order sizes) = Some (bs, sec)
     \<and> Header_ReadFrom f (probe_position f (bs, sec)) = Inr h"
proof (induction sizes)
  case Nil
  then show ?case by simp
next
  case (Cons b rest)
  note pr = Cons.prems [unfolded probe_one]
  from pr obtain h0 where h0: "Header_ReadFrom f b = Inr h0"
    by (cases "Header_ReadFrom f b") simp_all
  show ?case
  proof (cases "Header.Signature h0 \<in> set SIGNATURES")
    case True
    with pr h0 show ?thesis
      by (simp add: probe_order_Cons first_valid_Cons valid_header_at_def probe_position_def)
  next
    case False
    with pr h0 obtain h1 where h1: "Header_ReadFrom f (GetImageSize f - b) = Inr h1"
      by (cases "Header_ReadFrom f (GetImageSize f - b)") simp_all
    show ?thesis
    proof (cases "Header.Signature h1 \<in> set SIGNATURES")
      case True
      with pr h0 h1 False show ?thesis
        by (simp add: probe_order_Cons first_valid_Cons valid_header_at_def probe_position_def)
    next
      case F2: False
      with pr h0 h1 False have "probe_block_sizes f rest = Inr (bs, sec, h)" by simp
      from Cons.IH [OF this] h0 h1 False F2 show ?thesis
        by (simp add: probe_order_Cons first_valid_Cons valid_header_at_def probe_position_def)
    qed
  qed
qed

lemma probe_complete:
  "\<forall>c\<in>set (probe_order sizes). \<exists>h. Header_ReadFrom f (probe_position f c) = Inr h \<Longrightarrow>
     (case first_valid f (probe_order sizes) of
        None \<Rightarrow> probe_block_sizes f sizes = Inl (GPTError ''Invalid signature in GPT header.'')
      | Some c \<Rightarrow> \<exists>h. probe_block_sizes f sizes = Inr (fst c, snd c, h)
                       \<and> Header_ReadFrom f (probe_position f c) = Inr h)"
proof (induction sizes)
  case Nil
  then show ?case by (simp add: probe_order_def first_valid_Nil)
next
  case (Cons b rest)
  from Cons.prems obtain h0 h1 where
      h0: "Header_ReadFrom f b = Inr h0" and h1: "Header_ReadFrom f (GetImageSize f - b) = Inr h1"
    by (auto simp: probe_order_Cons probe_position_def)
  have rest: "\<forall>c\<in>set (probe_order rest). \<exists>h. Header_ReadFrom f (probe_position f c) = Inr h"
    using Cons.prems by (simp add: probe_order_Cons)
  note IH = Cons.IH [OF rest]
  show ?case
    unfolding probe_order_Cons probe_pair [OF h0 h1]
    using IH h0 h1 by (simp add: probe_position_def)
qed

lemma LoadFromFile_probe:
  assumes "LoadFromFile f = Inr g"
  shows "probe_block_sizes f (case logical_block_size f of
                                Some b \<Rightarrow> [b] | None \<Rightarrow> [DEFAULT_BLOCK_SIZE, 4096])
           = Inr (GPT.block_size g, is_secondary g, header g)"
proof -
  let ?sizes = "case logical_block_size f of Some b \<Rightarrow> [b] | None \<Rightarrow> [DEFAULT_BLOCK_SIZE, 4096]"
  note l = assms [unfolded LoadFromFile_def Let_def]
  from l obtain m where m: "ProtectiveMBR_ReadFrom f 0 = Inr m"
    by (cases "ProtectiveMBR_ReadFrom f 0") simp_all
  from l m obtain bs sec h where p: "probe_block_sizes f ?sizes = Inr (bs, sec, h)"
    by (cases "probe_block_sizes f ?sizes") auto
  from l m p have pos: "\<not> bs * PartitionEntriesStartingLBA h < 0"
    by (cases "bs * PartitionEntriesStartingLBA h < 0") simp_all
  from l m p pos obtain ps where
    "ReadPartitions f (bs * PartitionEntriesStartingLBA h) bs [0..<nat (PartitionEntriesNumber h)]
       = Inr ps"
    by (cases "ReadPartitions f (bs * PartitionEntriesStartingLBA h) bs
                 [0..<nat (PartitionEntriesNumber h)]") simp_all
  with l m p pos have "GPT.block_size g = bs" "is_secondary g = sec" "header g = h"
    by auto
  with p show ?thesis by simp
qed

lemma ProtectiveMBR_ReadFrom_ok0:
  assumes "512 \<le> length (content f)"
  shows "\<exists>m. ProtectiveMBR_ReadFrom f 0 = Inr m"
proof -
  have "length (slice 0 512 (content f)) = 512" using assms by (simp add: slice_def)
  then show ?thesis
    by (simp add: ProtectiveMBR_ReadFrom_def file_read_def PMBR_WIDTHS_def
        ProtectiveMBR_Unpack_def struct_unpack_def)
qed

lemmas C1_read_simps = Header_ReadFrom_def file_read_def C1_image_def HEADER_WIDTHS_def
  slice_def Header_Unpack_def struct_unpack_def Header_Zero_def SIGNATURES_def GUID_Unpack_def
  swap_le_def be_int_def le_int_append

lemma C1_primary: "Header_ReadFrom C1_image 512 = Inr (Header_Zero\<lparr>Header.Signature := SIGNATURES ! 0\<rparr>)"
  by (simp add: C1_read_simps)

lemma C1_backup: "Header_ReadFrom C1_image 4096 = Inr (Header_Zero\<lparr>Header.Signature := SIGNATURES ! 1\<rparr>)"
  by (simp add: C1_read_simps)

lemma C1_size: "GetImageSize C1_image = 4608"
  by (simp add: GetImageSize_def C1_image_def)

lemma C1_pmbr: "\<exists>m. ProtectiveMBR_ReadFrom C1_image 0 = Inr m \<and> ProtectiveMBR.Signature m = replicate 2 0"
proof -
  have "slice 0 512 (content C1_image) = replicate 512 0"
    by (simp add: C1_image_def slice_def)
  moreover have "\<exists>m. ProtectiveMBR_Unpack (replicate 512 0) = Inr m
                     \<and> ProtectiveMBR.Signature m = replicate 2 0"
    by (simp add: ProtectiveMBR_Unpack_def struct_unpack_def PMBR_WIDTHS_def)
  ultimately show ?thesis
    by (simp add: ProtectiveMBR_ReadFrom_def file_read_def PMBR_WIDTHS_def)
qed

lemma C1_load: "LoadFromFile C1_image = Inr C1_gpt"
proof -
  obtain m where m: "ProtectiveMBR_ReadFrom C1_image 0 = Inr m"
      "ProtectiveMBR.Signature m = replicate 2 0"
    using C1_pmbr by blast
  have "replicate 2 (0::byte) = [0, 0]" by (simp add: numeral_2_eq_2)
  then have n: "replicate 2 (0::byte) \<noteq> PMBR_SIGNATURE"
    by (simp add: PMBR_SIGNATURE_def)
  have lb: "logical_block_size C1_image = None" by (simp add: C1_image_def)
  have p: "probe_block_sizes C1_image [DEFAULT_BLOCK_SIZE, 4096]
             = Inr (512, False, Header_Zero\<lparr>Header.Signature := SIGNATURES ! 0\<rparr>)"
    by (simp add: DEFAULT_BLOCK_SIZE_def C1_primary SIGNATURES_def)
  have z: "PartitionEntriesStartingLBA (Header_Zero\<lparr>Header.Signature := SIGNATURES ! 0\<rparr>) = 0"
     "PartitionEntriesNumber (Header_Zero\<lparr>Header.Signature := SIGNATURES ! 0\<rparr>) = 0"
    by (simp_all add: Header_Zero_def)
  show ?thesis
    by (simp add: LoadFromFile_def m n lb p z C1_gpt_def del: probe_block_sizes.simps)
qed

lemma C1_spec_order: "first_valid C1_image spec_probe_order = Some (512, True)"
  by (simp add: spec_probe_order_def first_valid_Cons valid_header_at_def probe_position_def
      C1_size C1_backup SIGNATURES_def)

section \<open>Claims\<close>

subsection \<open>C10: a bit-field setter touches only its own bits\<close>

text \<open>
  C10. For every attributes word \<open>raw\<close>, every bit-packed field \<open>f\<close> (successful, tries,
  priority, legacy_boot, required; the sixth property raw_16 behaves alike) and every value
  \<open>v\<close> with \<open>v & mask == v\<close>: the setter succeeds, reading the field afterwards returns
  \<open>v\<close>, and every bit outside \<open>mask << shift\<close> is unchanged. The 64-bit range of
  \<open>raw\<close> is not needed.
\<close>

theorem C10_bit_field_set_frame:
  assumes "v AND attr_mask f = v"
  shows "\<exists>raw'. attr_set f raw v = Inr raw'
           \<and> attr_get f raw' = v
           \<and> raw' AND NOT (push_bit (attr_shift f) (attr_mask f))
               = raw AND NOT (push_bit (attr_shift f) (attr_mask f))
           \<and> (\<forall>n. \<not> bit (push_bit (attr_shift f) (attr_mask f)) n \<longrightarrow> bit raw' n = bit raw n)"
proof -
  let ?s = "attr_shift f" and ?m = "attr_mask f"
  let ?r = "(raw AND NOT (push_bit ?s ?m)) OR push_bit ?s v"
  have set: "attr_set f raw v = Inr ?r"
    using assms by (simp add: attr_set_def BitProperty_setter_def)
  have vbit: "bit v n \<Longrightarrow> bit ?m n" for n
  proof -
    assume "bit v n"
    then have "bit (v AND ?m) n" using assms by simp
    then show "bit ?m n" by (simp add: bit_and_iff)
  qed
  have get: "attr_get f ?r = v"
    unfolding attr_get_def BitProperty_getter_def
    by (rule bit_eqI) (auto simp: bit_and_iff bit_or_iff bit_not_iff bit_drop_bit_eq
        bit_push_bit_iff dest: vbit)
  have frame: "?r AND NOT (push_bit ?s ?m) = raw AND NOT (push_bit ?s ?m)"
    by (rule bit_eqI) (auto simp: bit_and_iff bit_or_iff bit_not_iff bit_push_bit_iff dest: vbit)
  have bits: "\<forall>n. \<not> bit (push_bit ?s ?m) n \<longrightarrow> bit ?r n = bit raw n"
    by (auto simp: bit_and_iff bit_or_iff bit_not_iff bit_push_bit_iff dest: vbit)
  show ?thesis using set get frame bits by blast
qed

theorem C10_bit_field_set_frame_witness:
  "(9::int) AND attr_mask priority = 9
   \<and> attr_set priority 0x0123456789ABCDEF 9 = Inr 0x0129456789ABCDEF
   \<and> attr_get priority 0x0129456789ABCDEF = 9"
proof -
  have h: "(9::int) AND attr_mask priority = 9" by simp
  from C10_bit_field_set_frame [OF h, of "0x0123456789ABCDEF"]
  obtain raw' where r: "attr_set priority 0x0123456789ABCDEF 9 = Inr raw'"
      and g: "attr_get priority raw' = 9" by blast
  have "attr_set priority 0x0123456789ABCDEF 9 = Inr 0x0129456789ABCDEF"
    by (simp add: attr_set_def BitProperty_setter_def)
  with r g h show ?thesis by simp
qed

subsection \<open>C4: ExpandPartition\<close>

text \<open>
  C4. For a partition number \<open>n\<close> of the table: \<open>ExpandPartition\<close> fails with a
  \<open>GPTError\<close> whenever partition \<open>n\<close> is unused or another allocated partition has a
  greater \<open>LastLBA\<close>; when partition \<open>n\<close> is allocated and no allocated partition
  ends behind it, it succeeds, sets the \<open>LastLBA\<close> of that entry to
  \<open>LastUsableLBA - reserved_blocks\<close>, changes nothing else and returns the old and new
  block counts; with \<open>reserved_blocks = 0\<close> the new count is below the old one only if
  \<open>LastUsableLBA\<close> is below the old \<open>LastLBA\<close>.
\<close>

theorem C4_ExpandPartition:
  assumes n: "0 < n" "n \<le> int (length (partitions gpt))"
  shows "(IsUnused (partitions gpt ! nat (n - 1))
            \<or> (\<exists>q\<in>set (partitions gpt). \<not> IsUnused q
                  \<and> LastLBA q > LastLBA (partitions gpt ! nat (n - 1)))
          \<longrightarrow> (\<exists>msg. ExpandPartition gpt n reserved_blocks = Inl (GPTError msg)))
       \<and> (\<not> IsUnused (partitions gpt ! nat (n - 1))
            \<and> (\<forall>q\<in>set (partitions gpt). \<not> IsUnused q
                  \<longrightarrow> LastLBA q \<le> LastLBA (partitions gpt ! nat (n - 1)))
          \<longrightarrow> (\<exists>gpt'. ExpandPartition gpt n reserved_blocks
                   = Inr (gpt', blocks (partitions gpt ! nat (n - 1)),
                          LastUsableLBA (header gpt) - reserved_blocks
                            - FirstLBA (partitions gpt ! nat (n - 1)) + 1)
                \<and> header gpt' = header gpt
                \<and> partitions gpt' = (partitions gpt)
                     [nat (n - 1) := (partitions gpt ! nat (n - 1))
                        \<lparr>LastLBA := LastUsableLBA (header gpt) - reserved_blocks\<rparr>]))
       \<and> (\<forall>gpt' old_blocks new_blocks.
             ExpandPartition gpt n 0 = Inr (gpt', old_blocks, new_blocks)
               \<and> new_blocks < old_blocks
             \<longrightarrow> LastUsableLBA (header gpt) < LastLBA (partitions gpt ! nat (n - 1)))"
proof -
  let ?p = "partitions gpt ! nat (n - 1)"
  have gp: "GetPartition gpt n = Inr ?p" using n by (simp add: GetPartition_def)
  have mem: "?p \<in> set (partitions gpt)" using n by (intro nth_mem) auto
  have a: "IsUnused ?p \<or> (\<exists>q\<in>set (partitions gpt). \<not> IsUnused q \<and> LastLBA q > LastLBA ?p)
      \<Longrightarrow> \<exists>msg. ExpandPartition gpt n reserved_blocks = Inl (GPTError msg)"
  proof (cases "IsUnused ?p")
    case True
    then show ?thesis by (simp add: ExpandPartition_def gp)
  next
    case False
    assume "IsUnused ?p \<or> (\<exists>q\<in>set (partitions gpt). \<not> IsUnused q \<and> LastLBA q > LastLBA ?p)"
    with False obtain q where "q \<in> set (partitions gpt)" "\<not> IsUnused q" "LastLBA q > LastLBA ?p"
      by blast
    then have "GetMaxUsedLBA gpt > LastLBA ?p" using GetMaxUsedLBA_ge [of q gpt] by simp
    then show ?thesis using False by (simp add: ExpandPartition_def gp Let_def)
  qed
  have b: "\<not> IsUnused ?p \<and> (\<forall>q\<in>set (partitions gpt). \<not> IsUnused q \<longrightarrow> LastLBA q \<le> LastLBA ?p)
      \<Longrightarrow> \<exists>gpt'. ExpandPartition gpt n reserved_blocks
                   = Inr (gpt', blocks ?p, LastUsableLBA (header gpt) - reserved_blocks - FirstLBA ?p + 1)
                \<and> header gpt' = header gpt
                \<and> partitions gpt' = (partitions gpt)
                     [nat (n - 1) := ?p\<lparr>LastLBA := LastUsableLBA (header gpt) - reserved_blocks\<rparr>]"
  proof -
    assume h: "\<not> IsUnused ?p \<and> (\<forall>q\<in>set (partitions gpt). \<not> IsUnused q \<longrightarrow> LastLBA q \<le> LastLBA ?p)"
    then have "GetMaxUsedLBA gpt \<le> LastLBA ?p" using GetMaxUsedLBA_le [OF mem] by blast
    then show ?thesis using h by (simp add: ExpandPartition_def gp Let_def blocks_def)
  qed
  have c: "ExpandPartition gpt n 0 = Inr (gpt', old_blocks, new_blocks) \<and> new_blocks < old_blocks
      \<Longrightarrow> LastUsableLBA (header gpt) < LastLBA ?p" for gpt' old_blocks new_blocks
    by (auto simp: ExpandPartition_def gp Let_def blocks_def split: if_splits)
  show ?thesis using a b c by blast
qed

theorem C4_ExpandPartition_witness:
  "(0::int) < 2 \<and> 2 \<le> int (length (partitions C4_gpt))
   \<and> (\<exists>gpt'. ExpandPartition C4_gpt 2 0 = Inr (gpt', 400, 901)
          \<and> map LastLBA (partitions gpt') = [99, 1000, 0])
   \<and> (\<exists>msg. ExpandPartition C4_gpt 1 0 = Inl (GPTError msg))
   \<and> (\<exists>msg. ExpandPartition C4_gpt 3 0 = Inl (GPTError msg))"
proof -
  have n2: "(0::int) < 2" "2 \<le> int (length (partitions C4_gpt))" by (simp_all add: C4_eval)
  have n1: "(0::int) < 1" "1 \<le> int (length (partitions C4_gpt))" by (simp_all add: C4_eval)
  have n3: "(0::int) < 3" "3 \<le> int (length (partitions C4_gpt))" by (simp_all add: C4_eval)
  have last2: "\<not> IsUnused (partitions C4_gpt ! nat (2 - 1))
      \<and> (\<forall>q\<in>set (partitions C4_gpt). \<not> IsUnused q
            \<longrightarrow> LastLBA q \<le> LastLBA (partitions C4_gpt ! nat (2 - 1)))"
    by (simp add: C4_eval)
  have other1: "IsUnused (partitions C4_gpt ! nat (1 - 1))
      \<or> (\<exists>q\<in>set (partitions C4_gpt). \<not> IsUnused q
            \<and> LastLBA q > LastLBA (partitions C4_gpt ! nat (1 - 1)))"
    by (simp add: C4_eval)
  have unused3: "IsUnused (partitions C4_gpt ! nat (3 - 1))
      \<or> (\<exists>q\<in>set (partitions C4_gpt). \<not> IsUnused q
            \<and> LastLBA q > LastLBA (partitions C4_gpt ! nat (3 - 1)))"
    by (simp add: C4_eval)
  from C4_ExpandPartition [OF n2, of 0] last2
  obtain gpt' where "ExpandPartition C4_gpt 2 0
        = Inr (gpt', blocks (partitions C4_gpt ! nat (2 - 1)),
               LastUsableLBA (header C4_gpt) - 0 - FirstLBA (partitions C4_gpt ! nat (2 - 1)) + 1)"
      and "partitions gpt' = (partitions C4_gpt)
             [nat (2 - 1) := (partitions C4_gpt ! nat (2 - 1))
                \<lparr>LastLBA := LastUsableLBA (header C4_gpt) - 0\<rparr>]"
    by blast
  then have e2: "\<exists>gpt'. ExpandPartition C4_gpt 2 0 = Inr (gpt', 400, 901)
          \<and> map LastLBA (partitions gpt') = [99, 1000, 0]"
    by (simp add: C4_eval)
  from C4_ExpandPartition [OF n1, of 0] other1
  have e1: "\<exists>msg. ExpandPartition C4_gpt 1 0 = Inl (GPTError msg)" by blast
  from C4_ExpandPartition [OF n3, of 0] unused3
  have e3: "\<exists>msg. ExpandPartition C4_gpt 3 0 = Inl (GPTError msg)" by blast
  show ?thesis using n2 e2 e1 e3 by blast
qed

subsection \<open>C6: the sector count of the protective MBR\<close>

text \<open>
  C6, as amended. When \<open>WriteProtectiveMBR\<close> is called with \<open>create\<close> true on an
  image of at least one sector, it succeeds, and the sector count in the covering legacy
  partition entry, in the returned PMBR and in bytes 458 to 461 of the written image, is
  \<open>min(2^32, image size // 512) - 1\<close>. The bound of the source is
  \<open>0x100000000\<close>, not \<open>2^32 - 1\<close>.
\<close>

theorem C6_sector_count:
  assumes "512 \<le> length (content f)"
  shows "\<exists>f' m. WriteProtectiveMBR f True bootcode boot_guid = Inr (f', m)
           \<and> sector_count m = min (2 ^ 32) (GetImageSize f div 512) - 1
           \<and> le_int (slice 458 4 (content f')) = min (2 ^ 32) (GetImageSize f div 512) - 1"
proof -
  obtain f' m where w: "WriteProtectiveMBR f True bootcode boot_guid = Inr (f', m)"
    and p0: "LegacyPart0 m = [0x00, 0x00, 0x02, 0x00, 0xee, 0xff, 0xff, 0xff,
                              0x01, 0x00, 0x00, 0x00] @ le_bytes 4 (legacy_sectors f)"
    and sl: "slice 446 16 (content f') = LegacyPart0 m"
    using WriteProtectiveMBR_create [OF assms] by blast
  have sc: "sector_count m = legacy_sectors f" by (rule sector_count_created [OF assms p0])
  have "slice 458 4 (content f') = drop 12 (slice 446 16 (content f'))"
    by (simp add: slice_def drop_take)
  then have "le_int (slice 458 4 (content f')) = sector_count m"
    by (simp add: sl sector_count_def)
  then show ?thesis using w sc by (simp add: legacy_sectors_def DEFAULT_BLOCK_SIZE_def)
qed

theorem C6_sector_count_witness:
  "512 \<le> length (content C6_small_image)
   \<and> (\<exists>f' m. WriteProtectiveMBR C6_small_image True None None = Inr (f', m)
          \<and> sector_count m = 99)"
proof -
  have h: "512 \<le> length (content C6_small_image)" by (simp add: C6_small_image_def)
  have "GetImageSize C6_small_image = 51200" by (simp add: C6_small_image_def GetImageSize_def)
  with C6_sector_count [OF h, of None None] h show ?thesis by auto
qed

text \<open>
  C6 as stated fails on an image of \<open>2^32\<close> sectors: the stored count is
  \<open>2^32 - 1\<close>, while \<open>min(2^32 - 1, sectors) - 1\<close> is \<open>2^32 - 2\<close>.
\<close>

theorem C6_counterexample:
  "(case WriteProtectiveMBR C6_big_image True None None of
      Inl e \<Rightarrow> None | Inr (f', m) \<Rightarrow> Some (sector_count m)) = Some 4294967295
   \<and> min (2 ^ 32 - 1) (GetImageSize C6_big_image div 512) - 1 = 4294967294"
proof -
  have h: "512 \<le> length (content C6_big_image)" by (simp add: C6_big_image_def)
  have sz: "GetImageSize C6_big_image = 2199023255552"
    by (simp add: C6_big_image_def GetImageSize_def)
  obtain f' m where w: "WriteProtectiveMBR C6_big_image True None None = Inr (f', m)"
    and p0: "LegacyPart0 m = [0x00, 0x00, 0x02, 0x00, 0xee, 0xff, 0xff, 0xff,
                              0x01, 0x00, 0x00, 0x00] @ le_bytes 4 (legacy_sectors C6_big_image)"
    using WriteProtectiveMBR_create [OF h] by blast
  have "sector_count m = legacy_sectors C6_big_image" by (rule sector_count_created [OF h p0])
  then have "sector_count m = 4294967295"
    by (simp add: legacy_sectors_def sz DEFAULT_BLOCK_SIZE_def)
  then show ?thesis using w sz by simp
qed

subsection \<open>C1: the order in which LoadFromFile probes\<close>

text \<open>
  C1, as amended. For every disk image that is not a block device, \<open>LoadFromFile\<close>
  probes the candidate block sizes 512 then 4096, and for each candidate it checks the
  primary location (the second block) before the backup location (the last block); the first
  valid signature in that order fixes the block size and whether the loaded copy is
  secondary, and the loaded header is the one read there. When the image is long enough for
  all four reads and no probe is valid, loading fails with the decode error; when one is
  valid, the search returns it.
\<close>

theorem C1_probe_order:
  assumes "logical_block_size f = None"
  shows "(\<forall>g. LoadFromFile f = Inr g \<longrightarrow>
            first_valid f [(512, False), (512, True), (4096, False), (4096, True)]
              = Some (GPT.block_size g, is_secondary g)
            \<and> Header_ReadFrom f (probe_position f (GPT.block_size g, is_secondary g))
                = Inr (header g))
       \<and> (4188 \<le> length (content f) \<longrightarrow>
            (case first_valid f [(512, False), (512, True), (4096, False), (4096, True)] of
               None \<Rightarrow> LoadFromFile f = Inl (GPTError ''Invalid signature in GPT header.'')
             | Some c \<Rightarrow>
                 \<exists>h. probe_block_sizes f [DEFAULT_BLOCK_SIZE, 4096] = Inr (fst c, snd c, h)
                     \<and> Header_ReadFrom f (probe_position f c) = Inr h))"
proof (intro conjI allI impI)
  fix g assume "LoadFromFile f = Inr g"
  from LoadFromFile_probe [OF this] assms
  have "probe_block_sizes f [DEFAULT_BLOCK_SIZE, 4096]
          = Inr (GPT.block_size g, is_secondary g, header g)" by simp
  from probe_sound [OF this]
  show "first_valid f [(512, False), (512, True), (4096, False), (4096, True)]
          = Some (GPT.block_size g, is_secondary g)"
    and "Header_ReadFrom f (probe_position f (GPT.block_size g, is_secondary g)) = Inr (header g)"
    by (simp_all add: probe_order_default)
next
  assume len: "4188 \<le> length (content f)"
  then obtain m where m: "ProtectiveMBR_ReadFrom f 0 = Inr m"
    using ProtectiveMBR_ReadFrom_ok0 [of f] by auto
  have r: "\<exists>h. Header_ReadFrom f pos = Inr h"
    if "pos \<in> {512, GetImageSize f - 512, 4096, GetImageSize f - 4096}" for pos
  proof -
    from that len have "0 \<le> pos" "nat pos + 92 \<le> length (content f)"
      by (auto simp: GetImageSize_def)
    then show ?thesis by (rule Header_ReadFrom_ok)
  qed
  have all: "\<forall>c\<in>set (probe_order [DEFAULT_BLOCK_SIZE, 4096]).
               \<exists>h. Header_ReadFrom f (probe_position f c) = Inr h"
    using r by (simp add: probe_order_default probe_position_def)
  note pc = probe_complete [OF all, unfolded probe_order_default]
  show "case first_valid f [(512, False), (512, True), (4096, False), (4096, True)] of
          None \<Rightarrow> LoadFromFile f = Inl (GPTError ''Invalid signature in GPT header.'')
        | Some c \<Rightarrow>
            \<exists>h. probe_block_sizes f [DEFAULT_BLOCK_SIZE, 4096] = Inr (fst c, snd c, h)
                \<and> Header_ReadFrom f (probe_position f c) = Inr h"
  proof (cases "first_valid f [(512, False), (512, True), (4096, False), (4096, True)]")
    case None
    with pc have "probe_block_sizes f [DEFAULT_BLOCK_SIZE, 4096]
                    = Inl (GPTError ''Invalid signature in GPT header.'')" by simp
    then show ?thesis using None assms by (simp add: LoadFromFile_def m)
  next
    case (Some c)
    with pc show ?thesis by simp
  qed
qed

theorem C1_probe_order_witness:
  "logical_block_size C1_image = None \<and> LoadFromFile C1_image = Inr C1_gpt
   \<and> 4188 \<le> length (content C1_image)
   \<and> first_valid C1_image [(512, False), (512, True), (4096, False), (4096, True)]
       = Some (512, False)
   \<and> is_secondary C1_gpt = False"
proof -
  have h: "logical_block_size C1_image = None" by (simp add: C1_image_def)
  have l: "4188 \<le> length (content C1_image)" by (simp add: C1_image_def)
  from C1_probe_order [OF h] C1_load
  have "first_valid C1_image [(512, False), (512, True), (4096, False), (4096, True)]
          = Some (GPT.block_size C1_gpt, is_secondary C1_gpt)"
    by blast
  then show ?thesis using h l C1_load by (simp add: C1_gpt_def)
qed

text \<open>
  C1 as stated fails: on the image above both locations of block size 512 hold a valid
  signature; the backup-first order of the claim selects the secondary copy, the program
  loads the primary one.
\<close>

theorem C1_counterexample:
  "loaded_as C1_image = Some (512, False)
   \<and> first_valid C1_image spec_probe_order = Some (512, True)"
  using C1_load C1_spec_order by (simp add: loaded_as_def C1_gpt_def)

end
